theory Spec2Isabelle
  imports Main "HOL-Library.Word" "HOL-Library.Multiset"
begin

section \<open>The construct properties (src/index.ts, lines 10-24)\<close>

record ScheduleTargetProperty =
  logGroupName :: string
  destinationPrefix :: string

record ScheduleProperty =
  name :: string
  description :: string
  target :: ScheduleTargetProperty

text \<open>\<open>targetBucket?: string\<close>: \<open>None\<close> is \<open>undefined\<close>.\<close>

record DailyCloudWatchLogArchiverProps =
  schedules :: "ScheduleProperty list"
  targetBucket :: "string option"

section \<open>What the constructor creates\<close>

datatype Effect = ALLOW | DENY

text \<open>
  An \<open>iam.PolicyStatement\<close>. \<open>principals\<close> holds the service principals, \<open>conditions\<close>
  the triples operator, key, value; both are empty where the source gives none.
\<close>

record PolicyStatement =
  effect :: Effect
  principals :: "string list"
  actions :: "string list"
  resources :: "string list"
  conditions :: "(string \<times> string \<times> string) list"

record IBucket =
  bucketName :: string
  bucketARN :: string

record RoleProps =
  roleName :: "string option"
  roleDescription :: "string option"
  assumedBy :: string
  managedPolicies :: "string list"
  inlinePolicies :: "(string \<times> PolicyStatement list) list"

record FunctionProps =
  functionName :: string
  functionDescription :: string
  environment :: "(string \<times> string) list"
  role :: string

record RetryPolicy =
  maximumEventAgeInSeconds :: nat
  maximumRetryAttempts :: nat

record ScheduleTarget =
  arn :: string
  roleArn :: string
  input :: string
  retryPolicy :: RetryPolicy

record CfnScheduleProps =
  scheduleName :: string
  scheduleDescription :: string
  state :: string
  groupName :: string
  flexibleTimeWindowMode :: string
  scheduleExpressionTimezone :: string
  scheduleExpression :: string
  scheduleTarget :: ScheduleTarget

text \<open>
  The children the constructor adds to its own scope (\<open>this\<close>), each with the construct id
  it is created under. A \<open>SecureLogBucket\<close> carries the bucket name asked for and the
  resource policy statements added to it so far; an \<open>ExistingBucket\<close> is the import made by
  \<open>Bucket.fromBucketName\<close>.
\<close>

datatype Construct =
    SecureLogBucket string string "PolicyStatement list"
  | ExistingBucket string IBucket
  | Role string RoleProps
  | LogArchiverFunction string FunctionProps
  | CfnScheduleGroup string string
  | CfnSchedule string CfnScheduleProps

fun constructId :: "Construct \<Rightarrow> string" where
  "constructId (SecureLogBucket i _ _) = i"
| "constructId (ExistingBucket i _) = i"
| "constructId (Role i _) = i"
| "constructId (LogArchiverFunction i _) = i"
| "constructId (CfnScheduleGroup i _) = i"
| "constructId (CfnSchedule i _) = i"

text \<open>
  \<open>Error msg\<close> is JavaScript's \<open>new Error(msg)\<close>. \<open>NameClash i\<close> is the error the
  constructs library throws when a scope is given a second child with the id \<open>i\<close>
  (\<open>There is already a Construct with name ...\<close>, from \<open>Node.addChild\<close>).
\<close>

datatype error = Error string | NameClash string

section \<open>The libraries the constructor calls\<close>

text \<open>
  Everything the constructor reads from aws-cdk-lib, the secure-log-bucket package and
  Node's crypto module, none of which is part of the repository, is a field of this record:
  \<^item> \<open>region\<close>: \<open>cdk.Stack.of(this).region\<close>;
  \<^item> \<open>uniqueIdScope\<close>, \<open>uniqueIdThis\<close>: \<open>cdk.Names.uniqueId\<close> of \<open>scope\<close> and of \<open>this\<close>;
  \<^item> \<open>shake256\<close>: the four bytes of \<open>createHash('shake256', {outputLength: 4})\<close> over
    a string, read as one 32-bit word, first byte most significant;
  \<^item> \<open>refOf i\<close>, \<open>arnOf i\<close>: the name and the ARN attribute of the child created under
    the id \<open>i\<close> (\<open>bucketName\<close>, \<open>bucketArn\<close>, \<open>functionArn\<close>, \<open>roleArn\<close>);
  \<^item> \<open>fromBucketName\<close>: \<open>Bucket.fromBucketName\<close>, which either throws or gives the
    name and ARN of the imported bucket.
\<close>

record cdk =
  region :: string
  uniqueIdScope :: string
  uniqueIdThis :: string
  shake256 :: "string \<Rightarrow> 32 word"
  refOf :: "string \<Rightarrow> string"
  arnOf :: "string \<Rightarrow> string"
  fromBucketName :: "string \<Rightarrow> error + IBucket"

definition hexDigit :: "nat \<Rightarrow> char" where
  "hexDigit n = ''0123456789abcdef'' ! (n mod 16)"

text \<open>\<open>digest('hex')\<close> of a four-byte digest: eight lower-case hexadecimal digits.\<close>

definition digestHex :: "32 word \<Rightarrow> string" where
  "digestHex w = map (\<lambda>k. hexDigit (unat w div 16 ^ k)) [7, 6, 5, 4, 3, 2, 1, 0]"

text \<open>
  An array index inside a template literal (a key of \<open>Object.entries\<close>): its decimal
  digits.
\<close>

definition digit :: "nat \<Rightarrow> char" where
  "digit n = ''0123456789'' ! (n mod 10)"

fun decimal :: "nat \<Rightarrow> string" where
  "decimal n = (if n < 10 then [digit n] else decimal (n div 10) @ [digit n])"

declare decimal.simps [simp del]

text \<open>
  \<open>JSON.stringify\<close> of an object whose values are strings, as the list of its keys and
  values in order. Characters are bytes here; a quotation mark, a backslash and the control
  characters are escaped as JavaScript escapes them.
\<close>

definition jsonEscape :: "char \<Rightarrow> string" where
  "jsonEscape c =
     (if c = CHR 0x22 then [CHR 0x5C, CHR 0x22]
      else if c = CHR 0x5C then [CHR 0x5C, CHR 0x5C]
      else if c = CHR 0x08 then [CHR 0x5C, CHR ''b'']
      else if c = CHR 0x0C then [CHR 0x5C, CHR ''f'']
      else if c = CHR 0x0A then [CHR 0x5C, CHR ''n'']
      else if c = CHR 0x0D then [CHR 0x5C, CHR ''r'']
      else if c = CHR 0x09 then [CHR 0x5C, CHR ''t'']
      else if (of_char c :: nat) < 32
        then [CHR 0x5C, CHR ''u'', CHR ''0'', CHR ''0'',
              hexDigit (of_char c div 16), hexDigit (of_char c)]
      else [c])"

definition jsonString :: "string \<Rightarrow> string" where
  "jsonString s = [CHR 0x22] @ concat (map jsonEscape s) @ [CHR 0x22]"

fun jsonMembers :: "(string \<times> string) list \<Rightarrow> string" where
  "jsonMembers [] = []"
| "jsonMembers [(k, v)] = jsonString k @ '':'' @ jsonString v"
| "jsonMembers ((k, v) # kvs) = jsonString k @ '':'' @ jsonString v @ '','' @ jsonMembers kvs"

definition JSON_stringify :: "(string \<times> string) list \<Rightarrow> string" where
  "JSON_stringify kvs = ''{'' @ jsonMembers kvs @ ''}''"

section \<open>The constructor of DailyCloudWatchLogArchiver (src/index.ts, lines 27-201)\<close>

text \<open>
  The constructor runs on the children of \<open>this\<close>, in creation order, and ends with the
  error thrown, if any, and the children created until then.
\<close>

type_synonym step = "Construct list \<Rightarrow> error option \<times> Construct list"

text \<open>\<open>new C(this, id, ...)\<close>: the scope refuses an id it already holds.\<close>

definition new :: "Construct \<Rightarrow> step" where
  "new c cs =
     (if constructId c \<in> set (map constructId cs) then (Some (NameClash (constructId c)), cs)
      else (None, cs @ [c]))"

text \<open>One statement after another: a throw ends the run.\<close>

definition andThen :: "step \<Rightarrow> step \<Rightarrow> step" where
  "andThen f g cs = (case f cs of (Some err, cs') \<Rightarrow> (Some err, cs') | (None, cs') \<Rightarrow> g cs')"

text \<open>\<open>bucket.addToResourcePolicy(statement)\<close> on the bucket created under the id \<open>i\<close>.\<close>

fun addToResourcePolicy :: "string \<Rightarrow> PolicyStatement \<Rightarrow> Construct list \<Rightarrow> Construct list" where
  "addToResourcePolicy i st [] = []"
| "addToResourcePolicy i st (SecureLogBucket j n pol # cs) =
     (if i = j then SecureLogBucket j n (pol @ [st]) # cs
      else SecureLogBucket j n pol # addToResourcePolicy i st cs)"
| "addToResourcePolicy i st (c # cs) = c # addToResourcePolicy i st cs"

text \<open>Lines 30-36.\<close>

definition propsValidation :: "DailyCloudWatchLogArchiverProps \<Rightarrow> error option" where
  "propsValidation props =
     (if length (schedules props) = 0 then Some (Error ''Schedule not set.'')
      else if length (schedules props) > 60 then Some (Error ''Maximum number(60) of schedule.'')
      else None)"

text \<open>Lines 42-44.\<close>

definition randomNameKey :: "cdk \<Rightarrow> string" where
  "randomNameKey e = digestHex (shake256 e (uniqueIdScope e @ ''-'' @ uniqueIdThis e))"

text \<open>Lines 58-86: the two statements of the new bucket's resource policy.\<close>

definition getBucketAclStatement :: "cdk \<Rightarrow> PolicyStatement" where
  "getBucketAclStatement e =
     \<lparr>effect = ALLOW,
      principals = [''logs.'' @ region e @ ''.amazonaws.com''],
      actions = [''s3:GetBucketAcl''],
      resources = [arnOf e ''LogArchiveBucket''],
      conditions = []\<rparr>"

definition putObjectStatement :: "cdk \<Rightarrow> PolicyStatement" where
  "putObjectStatement e =
     \<lparr>effect = ALLOW,
      principals = [''logs.'' @ region e @ ''.amazonaws.com''],
      actions = [''s3:PutObject''],
      resources = [arnOf e ''LogArchiveBucket'' @ ''/*''],
      conditions = [(''StringEquals'', ''s3:x-amz-acl'', ''bucket-owner-full-control'')]\<rparr>"

text \<open>
  Lines 47-94: \<open>localBucket\<close> and the bucket behind it. The result is the error thrown or
  the value of \<open>localBucket\<close>, with the children after the step.
\<close>

definition logArchiveBucket :: "cdk \<Rightarrow> Construct list \<Rightarrow> (error + IBucket) \<times> Construct list" where
  "logArchiveBucket e cs =
     (case new (SecureLogBucket ''LogArchiveBucket'' (''log-archive-'' @ randomNameKey e) []) cs of
        (Some err, cs') \<Rightarrow> (Inl err, cs')
      | (None, cs') \<Rightarrow>
          (Inr \<lparr>bucketName = refOf e ''LogArchiveBucket'', bucketARN = arnOf e ''LogArchiveBucket''\<rparr>,
           addToResourcePolicy ''LogArchiveBucket'' (putObjectStatement e)
             (addToResourcePolicy ''LogArchiveBucket'' (getBucketAclStatement e) cs')))"

definition existingBucket :: "cdk \<Rightarrow> string \<Rightarrow> Construct list \<Rightarrow> (error + IBucket) \<times> Construct list" where
  "existingBucket e b cs =
     (case fromBucketName e b of
        Inl err \<Rightarrow> (Inl err, cs)
      | Inr bucket \<Rightarrow>
          (case new (ExistingBucket ''existingBucket'' bucket) cs of
             (Some err, cs') \<Rightarrow> (Inl err, cs')
           | (None, cs') \<Rightarrow> (Inr bucket, cs')))"

definition localBucket ::
  "cdk \<Rightarrow> DailyCloudWatchLogArchiverProps \<Rightarrow> Construct list \<Rightarrow> (error + IBucket) \<times> Construct list" where
  "localBucket e props cs =
     (case targetBucket props of
        None \<Rightarrow> logArchiveBucket e cs
      | Some b \<Rightarrow> if length b = 0 then logArchiveBucket e cs else existingBucket e b cs)"

text \<open>Lines 98-132.\<close>

definition lambdaExecutionRole :: "cdk \<Rightarrow> IBucket \<Rightarrow> Construct" where
  "lambdaExecutionRole e bucket =
     Role ''LambdaExecutionRole''
       \<lparr>roleName = Some (''daily-cw-log-archiver-lambda-exec-'' @ randomNameKey e @ ''-role''),
        roleDescription = Some '''',
        assumedBy = ''lambda.amazonaws.com'',
        managedPolicies = [''service-role/AWSLambdaBasicExecutionRole''],
        inlinePolicies =
          [(''log-export-policy'',
            [\<lparr>effect = ALLOW, principals = [], actions = [''logs:CreateExportTask''],
              resources = [''*''], conditions = []\<rparr>]),
           (''put-bucket-policy'',
            [\<lparr>effect = ALLOW, principals = [], actions = [''s3:GetBucketAcl'', ''s3:PutObject''],
              resources = [bucketARN bucket], conditions = []\<rparr>])]\<rparr>"

text \<open>Lines 135-142.\<close>

definition lambdaFunction :: "cdk \<Rightarrow> IBucket \<Rightarrow> Construct" where
  "lambdaFunction e bucket =
     LogArchiverFunction ''LogArchiveFunction''
       \<lparr>functionName = ''daily-cw-log-archiver-'' @ randomNameKey e @ ''-func'',
        functionDescription = ''A function to archive logs s3 bucket from CloudWatch Logs.'',
        environment = [(''BUCKET_NAME'', bucketName bucket)],
        role = ''LambdaExecutionRole''\<rparr>"

text \<open>Lines 145-163.\<close>

definition schedulerExecutionRole :: "cdk \<Rightarrow> Construct" where
  "schedulerExecutionRole e =
     Role ''SchedulerExecutionRole''
       \<lparr>roleName = None,
        roleDescription = None,
        assumedBy = ''scheduler.amazonaws.com'',
        managedPolicies = [],
        inlinePolicies =
          [(''lambda-invoke-policy'',
            [\<lparr>effect = ALLOW, principals = [], actions = [''lambda:InvokeFunction''],
              resources = [arnOf e ''LogArchiveFunction'', arnOf e ''LogArchiveFunction'' @ '':*''],
              conditions = []\<rparr>])]\<rparr>"

text \<open>Lines 166-168. An L1 resource gives back the name it was created with.\<close>

definition scheduleGroupName :: "cdk \<Rightarrow> string" where
  "scheduleGroupName e = ''log-archive-schedule-'' @ randomNameKey e @ ''-group''"

definition scheduleGroup :: "cdk \<Rightarrow> Construct" where
  "scheduleGroup e = CfnScheduleGroup ''ScheduleGroup'' (scheduleGroupName e)"

text \<open>Lines 172-174.\<close>

definition idPrefix :: "cdk \<Rightarrow> ScheduleProperty \<Rightarrow> string" where
  "idPrefix e schedule = digestHex (shake256 e (name schedule))"

text \<open>Lines 178-198: the properties of the schedule made from the entry \<open>[index, schedule]\<close>.\<close>

definition cfnScheduleProps :: "cdk \<Rightarrow> nat \<Rightarrow> ScheduleProperty \<Rightarrow> CfnScheduleProps" where
  "cfnScheduleProps e index schedule =
     \<lparr>scheduleName = name schedule,
      scheduleDescription = description schedule,
      state = ''ENABLED'',
      groupName = scheduleGroupName e,
      flexibleTimeWindowMode = ''OFF'',
      scheduleExpressionTimezone = ''UTC'',
      scheduleExpression = ''cron('' @ decimal index @ '' 13 * * ? *)'',
      scheduleTarget =
        \<lparr>arn = arnOf e ''LogArchiveFunction'',
         roleArn = arnOf e ''SchedulerExecutionRole'',
         input = JSON_stringify
           [(''logGroupName'', logGroupName (target schedule)),
            (''destinationPrefix'', destinationPrefix (target schedule))],
         retryPolicy = \<lparr>maximumEventAgeInSeconds = 60, maximumRetryAttempts = 0\<rparr>\<rparr>\<rparr>"

text \<open>Line 177: the schedule, under the id \<open>Schedule${idPrefix}\<close>.\<close>

definition cfnSchedule :: "cdk \<Rightarrow> nat \<Rightarrow> ScheduleProperty \<Rightarrow> Construct" where
  "cfnSchedule e index schedule =
     CfnSchedule (''Schedule'' @ idPrefix e schedule) (cfnScheduleProps e index schedule)"

text \<open>
  Line 170: the loop over the entries \<open>[index, schedule]\<close>. \<open>Object.entries\<close> of an
  array pairs each element with its index, in order: \<^const>\<open>List.enumerate\<close> from 0.
\<close>

fun scheduleLoop :: "cdk \<Rightarrow> (nat \<times> ScheduleProperty) list \<Rightarrow> step" where
  "scheduleLoop e [] cs = (None, cs)"
| "scheduleLoop e ((index, schedule) # rest) cs =
     andThen (new (cfnSchedule e index schedule)) (scheduleLoop e rest) cs"

definition DailyCloudWatchLogArchiver ::
  "cdk \<Rightarrow> DailyCloudWatchLogArchiverProps \<Rightarrow> error option \<times> Construct list" where
  "DailyCloudWatchLogArchiver e props =
     (case propsValidation props of
        Some err \<Rightarrow> (Some err, [])
      | None \<Rightarrow>
          (case localBucket e props [] of
             (Inl err, cs) \<Rightarrow> (Some err, cs)
           | (Inr bucket, cs) \<Rightarrow>
               andThen (new (lambdaExecutionRole e bucket))
                (andThen (new (lambdaFunction e bucket))
                  (andThen (new (schedulerExecutionRole e))
                    (andThen (new (scheduleGroup e))
                      (scheduleLoop e (List.enumerate 0 (schedules props)))))) cs))"

section \<open>Reading the result\<close>

text \<open>The ids of the children that are not schedules.\<close>

definition fixedIds :: "string set" where
  "fixedIds =
     {''LogArchiveBucket'', ''existingBucket'', ''LambdaExecutionRole'', ''LogArchiveFunction'',
      ''SchedulerExecutionRole'', ''ScheduleGroup''}"

text \<open>The schedules, the roles and the buckets among the children, in creation order.\<close>

fun schedulesOf :: "Construct list \<Rightarrow> (string \<times> CfnScheduleProps) list" where
  "schedulesOf [] = []"
| "schedulesOf (CfnSchedule i p # cs) = (i, p) # schedulesOf cs"
| "schedulesOf (c # cs) = schedulesOf cs"

fun rolesOf :: "Construct list \<Rightarrow> (string \<times> RoleProps) list" where
  "rolesOf [] = []"
| "rolesOf (Role i p # cs) = (i, p) # rolesOf cs"
| "rolesOf (c # cs) = rolesOf cs"

fun bucketsOf :: "Construct list \<Rightarrow> Construct list" where
  "bucketsOf [] = []"
| "bucketsOf (SecureLogBucket i n pol # cs) = SecureLogBucket i n pol # bucketsOf cs"
| "bucketsOf (ExistingBucket i b # cs) = ExistingBucket i b # bucketsOf cs"
| "bucketsOf (c # cs) = bucketsOf cs"

text \<open>
  The target bucket resolves: none is given, or the empty string, or
  \<open>Bucket.fromBucketName\<close> does not throw on the one given.
\<close>

definition bucketResolves :: "cdk \<Rightarrow> DailyCloudWatchLogArchiverProps \<Rightarrow> bool" where
  "bucketResolves e props =
     (case targetBucket props of
        None \<Rightarrow> True
      | Some b \<Rightarrow> length b = 0 \<or> (case fromBucketName e b of Inl err \<Rightarrow> False | Inr bucket \<Rightarrow> True))"

section \<open>An instance for the examples\<close>

text \<open>
  The theorems below hold for every instance of the libraries. The examples run on this
  one: the digest is SHAKE256 on the three strings the examples hash, the attributes are
  written as references to the construct id, and the import accepts the names of 3 to 63
  characters.
\<close>

definition sampleShake256 :: "string \<Rightarrow> 32 word" where
  "sampleShake256 s =
     (if s = ''Stack-StackArchiver'' then 0xcbe6d711
      else if s = ''daily-app-logs'' then 0xd2ce5d61
      else if s = ''audit-logs'' then 0x0231c397
      else 0)"

definition sampleFromBucketName :: "string \<Rightarrow> error + IBucket" where
  "sampleFromBucketName b =
     (if length b < 3 \<or> 63 < length b then Inl (Error ''Invalid S3 bucket name'')
      else Inr \<lparr>bucketName = b, bucketARN = ''arn:aws:s3:::'' @ b\<rparr>)"

definition sampleCdk :: cdk where
  "sampleCdk =
     \<lparr>region = ''us-east-1'',
      uniqueIdScope = ''Stack'',
      uniqueIdThis = ''StackArchiver'',
      shake256 = sampleShake256,
      refOf = (\<lambda>i. ''Ref:'' @ i),
      arnOf = (\<lambda>i. ''Arn:'' @ i),
      fromBucketName = sampleFromBucketName\<rparr>"

definition dailyAppLogs :: ScheduleProperty where
  "dailyAppLogs =
     \<lparr>name = ''daily-app-logs'', description = ''d'',
      target = \<lparr>logGroupName = ''/app/prod'', destinationPrefix = ''app/''\<rparr>\<rparr>"

definition dailyAppLogsAgain :: ScheduleProperty where
  "dailyAppLogsAgain =
     \<lparr>name = ''daily-app-logs'', description = ''again'',
      target = \<lparr>logGroupName = ''/app/test'', destinationPrefix = ''test/''\<rparr>\<rparr>"

definition auditLogs :: ScheduleProperty where
  "auditLogs =
     \<lparr>name = ''audit-logs'', description = ''a'',
      target = \<lparr>logGroupName = ''/audit'', destinationPrefix = ''audit/''\<rparr>\<rparr>"

text \<open>The inputs of the examples.\<close>

definition oneJob :: DailyCloudWatchLogArchiverProps where
  "oneJob = \<lparr>schedules = [dailyAppLogs], targetBucket = None\<rparr>"

definition twoJobs :: DailyCloudWatchLogArchiverProps where
  "twoJobs = \<lparr>schedules = [dailyAppLogs, auditLogs], targetBucket = Some ''existing-bucket''\<rparr>"

definition twoJobsSwapped :: DailyCloudWatchLogArchiverProps where
  "twoJobsSwapped = \<lparr>schedules = [auditLogs, dailyAppLogs], targetBucket = Some ''existing-bucket''\<rparr>"

definition sameNameTwice :: DailyCloudWatchLogArchiverProps where
  "sameNameTwice = \<lparr>schedules = [dailyAppLogs, dailyAppLogsAgain], targetBucket = None\<rparr>"

definition sameNameTwiceSwapped :: DailyCloudWatchLogArchiverProps where
  "sameNameTwiceSwapped = \<lparr>schedules = [dailyAppLogsAgain, dailyAppLogs], targetBucket = None\<rparr>"

definition threeJobs :: DailyCloudWatchLogArchiverProps where
  "threeJobs =
     \<lparr>schedules = [auditLogs, dailyAppLogs, dailyAppLogsAgain],
      targetBucket = Some ''existing-bucket''\<rparr>"

definition noJobs :: DailyCloudWatchLogArchiverProps where
  "noJobs = \<lparr>schedules = [], targetBucket = None\<rparr>"

definition tooManyJobs :: DailyCloudWatchLogArchiverProps where
  "tooManyJobs = \<lparr>schedules = replicate 61 dailyAppLogs, targetBucket = None\<rparr>"

definition shortBucketName :: DailyCloudWatchLogArchiverProps where
  "shortBucketName = \<lparr>schedules = [dailyAppLogs], targetBucket = Some ''x''\<rparr>"

text \<open>
  An instance whose import accepts every name and gives no ARN, and an input whose target
  bucket is not the name of a bucket.
\<close>

definition lenientCdk :: cdk where
  "lenientCdk = sampleCdk\<lparr>fromBucketName := (\<lambda>b. Inr \<lparr>bucketName = b, bucketARN = []\<rparr>)\<rparr>"

definition notABucket :: DailyCloudWatchLogArchiverProps where
  "notABucket = \<lparr>schedules = [dailyAppLogs], targetBucket = Some ''!! not a bucket !!''\<rparr>"

section \<open>The run of the constructor\<close>

lemma new_fresh: "constructId c \<notin> constructId ` set cs \<Longrightarrow> new c cs = (None, cs @ [c])"
  by (simp add: new_def)

lemma new_clash: "constructId c \<in> constructId ` set cs \<Longrightarrow> new c cs = (Some (NameClash (constructId c)), cs)"
  by (simp add: new_def)

lemma length_digestHex: "length (digestHex w) = 8"
  by (simp add: digestHex_def)

lemma length_idPrefix: "length (idPrefix e s) = 8"
  by (simp add: idPrefix_def length_digestHex)

lemma constructId_cfnSchedule: "constructId (cfnSchedule e k s) = ''Schedule'' @ idPrefix e s"
  by (simp add: cfnSchedule_def)

lemma schedule_id_not_fixed: "''Schedule'' @ idPrefix e s \<notin> fixedIds"
proof
  assume "''Schedule'' @ idPrefix e s \<in> fixedIds"
  then have "idPrefix e s = ''rExecutionRole'' \<or> idPrefix e s = ''Group''"
    by (auto simp: fixedIds_def)
  then have "length (idPrefix e s) = 14 \<or> length (idPrefix e s) = 5"
    by auto
  then show False
    by (simp add: length_idPrefix)
qed

lemma scheduleLoop_prefix:
  "\<exists>m\<le>length es. snd (scheduleLoop e es cs) = cs @ map (\<lambda>(k, s). cfnSchedule e k s) (take m es)
      \<and> (fst (scheduleLoop e es cs) = None \<longleftrightarrow> m = length es)"
proof (induction es arbitrary: cs)
  case Nil
  then show ?case by simp
next
  case (Cons a es)
  obtain k s where a: "a = (k, s)" by (cases a)
  show ?case
  proof (cases "constructId (cfnSchedule e k s) \<in> constructId ` set cs")
    case True
    then have "scheduleLoop e (a # es) cs = (Some (NameClash (constructId (cfnSchedule e k s))), cs)"
      by (simp add: a andThen_def new_clash)
    then show ?thesis
      by (intro exI [of _ 0]) simp
  next
    case False
    then have step: "scheduleLoop e ((k, s) # es) cs = scheduleLoop e es (cs @ [cfnSchedule e k s])"
      by (simp add: andThen_def new_fresh)
    from Cons.IH [of "cs @ [cfnSchedule e k s]"] obtain m where
      m: "m \<le> length es \<and>
         snd (scheduleLoop e es (cs @ [cfnSchedule e k s])) =
            (cs @ [cfnSchedule e k s]) @ map (\<lambda>(k, s). cfnSchedule e k s) (take m es) \<and>
         (fst (scheduleLoop e es (cs @ [cfnSchedule e k s])) = None \<longleftrightarrow> m = length es)"
      ..
    show ?thesis
      unfolding a step using m by (intro exI [of _ "Suc m"]) simp
  qed
qed

lemma scheduleLoop_fresh:
  "distinct (map (\<lambda>(k, s). idPrefix e s) es) \<Longrightarrow>
   (\<forall>(k, s)\<in>set es. ''Schedule'' @ idPrefix e s \<notin> constructId ` set cs) \<Longrightarrow>
   scheduleLoop e es cs = (None, cs @ map (\<lambda>(k, s). cfnSchedule e k s) es)"
proof (induction es arbitrary: cs)
  case Nil
  then show ?case by simp
next
  case (Cons a es)
  obtain k s where a: "a = (k, s)" by (cases a)
  have fresh: "constructId (cfnSchedule e k s) \<notin> constructId ` set cs"
    using Cons.prems(2) by (simp add: a constructId_cfnSchedule)
  have rest: "\<forall>(k', s')\<in>set es. ''Schedule'' @ idPrefix e s' \<notin> constructId ` set (cs @ [cfnSchedule e k s])"
  proof -
    have "''Schedule'' @ idPrefix e s' \<notin> constructId ` set (cs @ [cfnSchedule e k s])"
      if in_es: "(k', s') \<in> set es" for k' s'
    proof -
      from Cons.prems(2) in_es have "''Schedule'' @ idPrefix e s' \<notin> constructId ` set cs"
        by auto
      moreover from Cons.prems(1) in_es have "idPrefix e s' \<noteq> idPrefix e s"
        by (force simp: a)
      ultimately show ?thesis
        by (simp add: constructId_cfnSchedule)
    qed
    then show ?thesis by auto
  qed
  have "scheduleLoop e (a # es) cs = scheduleLoop e es (cs @ [cfnSchedule e k s])"
    using fresh by (simp add: a andThen_def new_fresh)
  also have "\<dots> = (None, (cs @ [cfnSchedule e k s]) @ map (\<lambda>(k, s). cfnSchedule e k s) es)"
    using Cons.IH [of "cs @ [cfnSchedule e k s]"] Cons.prems(1) rest by simp
  finally show ?case by (simp add: a)
qed


lemma logArchiveBucket_run:
  "logArchiveBucket e [] =
     (Inr \<lparr>bucketName = refOf e ''LogArchiveBucket'', bucketARN = arnOf e ''LogArchiveBucket''\<rparr>,
      [SecureLogBucket ''LogArchiveBucket'' (''log-archive-'' @ randomNameKey e)
         [getBucketAclStatement e, putObjectStatement e]])"
  by (simp add: logArchiveBucket_def new_def)

lemma localBucket_managed:
  "targetBucket props = None \<or> targetBucket props = Some [] \<Longrightarrow>
   localBucket e props [] = logArchiveBucket e []"
  by (auto simp: localBucket_def)

lemma localBucket_existing:
  "targetBucket props = Some b \<Longrightarrow> b \<noteq> [] \<Longrightarrow> fromBucketName e b = Inr bucket \<Longrightarrow>
   localBucket e props [] = (Inr bucket, [ExistingBucket ''existingBucket'' bucket])"
  by (simp add: localBucket_def existingBucket_def new_def)

lemma localBucket_throws:
  "targetBucket props = Some b \<Longrightarrow> b \<noteq> [] \<Longrightarrow> fromBucketName e b = Inl err \<Longrightarrow>
   localBucket e props [] = (Inl err, [])"
  by (simp add: localBucket_def existingBucket_def)

lemma constructor_after_bucket:
  assumes "propsValidation props = None"
    and "localBucket e props [] = (Inr bucket, [c])"
    and "constructId c = ''LogArchiveBucket'' \<or> constructId c = ''existingBucket''"
  shows "DailyCloudWatchLogArchiver e props =
           scheduleLoop e (List.enumerate 0 (schedules props))
             [c, lambdaExecutionRole e bucket, lambdaFunction e bucket,
              schedulerExecutionRole e, scheduleGroup e]"
  using assms
  by (auto simp: DailyCloudWatchLogArchiver_def andThen_def new_def lambdaExecutionRole_def
      lambdaFunction_def schedulerExecutionRole_def scheduleGroup_def)


lemma constructor_shape:
  assumes "propsValidation props = None"
    and "localBucket e props [] = (Inr bucket, [c])"
    and "constructId c = ''LogArchiveBucket'' \<or> constructId c = ''existingBucket''"
  shows "\<exists>m. m \<le> length (schedules props) \<and>
           snd (DailyCloudWatchLogArchiver e props) =
             [c, lambdaExecutionRole e bucket, lambdaFunction e bucket,
              schedulerExecutionRole e, scheduleGroup e]
             @ map (\<lambda>(k, s). cfnSchedule e k s) (take m (List.enumerate 0 (schedules props))) \<and>
           (fst (DailyCloudWatchLogArchiver e props) = None \<longleftrightarrow> m = length (schedules props))"
  using scheduleLoop_prefix [of "List.enumerate 0 (schedules props)" e
      "[c, lambdaExecutionRole e bucket, lambdaFunction e bucket,
        schedulerExecutionRole e, scheduleGroup e]"]
  by (simp add: constructor_after_bucket [OF assms])

lemma map_enumerate_snd: "map (\<lambda>(k, s). f s) (List.enumerate n xs) = map f xs"
  by (induction xs arbitrary: n) simp_all

lemma constructor_completes:
  assumes "propsValidation props = None"
    and "localBucket e props [] = (Inr bucket, [c])"
    and "constructId c = ''LogArchiveBucket'' \<or> constructId c = ''existingBucket''"
    and "distinct (map (idPrefix e) (schedules props))"
  shows "DailyCloudWatchLogArchiver e props =
           (None,
            [c, lambdaExecutionRole e bucket, lambdaFunction e bucket,
             schedulerExecutionRole e, scheduleGroup e]
            @ map (\<lambda>(k, s). cfnSchedule e k s) (List.enumerate 0 (schedules props)))"
proof -
  let ?es = "List.enumerate 0 (schedules props)"
  let ?cs = "[c, lambdaExecutionRole e bucket, lambdaFunction e bucket,
              schedulerExecutionRole e, scheduleGroup e]"
  have d: "distinct (map (\<lambda>(k, s). idPrefix e s) ?es)"
    using assms(4) by (simp add: map_enumerate_snd)
  have ids: "constructId ` set ?cs \<subseteq> fixedIds"
    using assms(3)
    by (auto simp: fixedIds_def lambdaExecutionRole_def lambdaFunction_def
        schedulerExecutionRole_def scheduleGroup_def)
  have "''Schedule'' @ idPrefix e s \<notin> constructId ` set ?cs" for s
    using ids schedule_id_not_fixed [of e s] by blast
  then have f: "\<forall>(k, s)\<in>set ?es. ''Schedule'' @ idPrefix e s \<notin> constructId ` set ?cs"
    by blast
  show ?thesis
    unfolding constructor_after_bucket [OF assms(1-3)]
    by (rule scheduleLoop_fresh [OF d f])
qed

lemma schedulesOf_append: "schedulesOf (cs @ cs') = schedulesOf cs @ schedulesOf cs'"
  by (induction cs rule: schedulesOf.induct) simp_all

lemma schedulesOf_cfnSchedule:
  "schedulesOf (map (\<lambda>(k, s). cfnSchedule e k s) es) =
     map (\<lambda>(k, s). (''Schedule'' @ idPrefix e s, cfnScheduleProps e k s)) es"
  by (induction es) (auto simp: cfnSchedule_def)

lemma rolesOf_append: "rolesOf (cs @ cs') = rolesOf cs @ rolesOf cs'"
  by (induction cs rule: rolesOf.induct) simp_all

lemma rolesOf_cfnSchedule: "rolesOf (map (\<lambda>(k, s). cfnSchedule e k s) es) = []"
  by (induction es) (auto simp: cfnSchedule_def)

lemma bucketsOf_append: "bucketsOf (cs @ cs') = bucketsOf cs @ bucketsOf cs'"
  by (induction cs rule: bucketsOf.induct) simp_all

lemma bucketsOf_cfnSchedule: "bucketsOf (map (\<lambda>(k, s). cfnSchedule e k s) es) = []"
  by (induction es) (auto simp: cfnSchedule_def)


lemma propsValidation_None:
  "propsValidation props = None \<longleftrightarrow>
     1 \<le> length (schedules props) \<and> length (schedules props) \<le> 60"
  by (cases "schedules props") (auto simp: propsValidation_def)

lemma bucket_step:
  assumes "bucketResolves e props"
  obtains bucket c where "localBucket e props [] = (Inr bucket, [c])"
    and "constructId c = ''LogArchiveBucket'' \<or> constructId c = ''existingBucket''"
    and "schedulesOf [c] = []" and "rolesOf [c] = []"
proof (cases "targetBucket props = None \<or> targetBucket props = Some []")
  case True
  show ?thesis
    by (rule that [OF trans [OF localBucket_managed [OF True] logArchiveBucket_run]]) simp_all
next
  case False
  then obtain b where b: "targetBucket props = Some b" "b \<noteq> []"
    by auto
  with assms obtain bucket where "fromBucketName e b = Inr bucket"
    by (auto simp: bucketResolves_def split: sum.splits)
  from localBucket_existing [OF b this] show ?thesis
    by (rule that) simp_all
qed

lemma completed_run:
  assumes "1 \<le> length (schedules props)" and "length (schedules props) \<le> 60"
    and "distinct (map (idPrefix e) (schedules props))"
    and "bucketResolves e props"
  shows "fst (DailyCloudWatchLogArchiver e props) = None"
    and "schedulesOf (snd (DailyCloudWatchLogArchiver e props)) =
           map (\<lambda>(k, s). (''Schedule'' @ idPrefix e s, cfnScheduleProps e k s))
             (List.enumerate 0 (schedules props))"
proof -
  have v: "propsValidation props = None"
    using assms(1,2) by (simp add: propsValidation_None)
  from assms(4) obtain bucket c where
    c: "localBucket e props [] = (Inr bucket, [c])"
       "constructId c = ''LogArchiveBucket'' \<or> constructId c = ''existingBucket''"
       "schedulesOf [c] = []"
    by (rule bucket_step)
  note run = constructor_completes [OF v c(1,2) assms(3)]
  show "fst (DailyCloudWatchLogArchiver e props) = None"
    by (simp add: run)
  have "schedulesOf [c, lambdaExecutionRole e bucket, lambdaFunction e bucket,
          schedulerExecutionRole e, scheduleGroup e] = []"
    using c(3)
    by (cases c) (simp_all add: lambdaExecutionRole_def lambdaFunction_def
        schedulerExecutionRole_def scheduleGroup_def)
  then show "schedulesOf (snd (DailyCloudWatchLogArchiver e props)) =
           map (\<lambda>(k, s). (''Schedule'' @ idPrefix e s, cfnScheduleProps e k s))
             (List.enumerate 0 (schedules props))"
    unfolding run snd_conv schedulesOf_append schedulesOf_cfnSchedule by simp
qed

lemma emitted_prefix:
  "\<exists>m. m \<le> length (schedules props) \<and>
     schedulesOf (snd (DailyCloudWatchLogArchiver e props)) =
       map (\<lambda>(k, s). (''Schedule'' @ idPrefix e s, cfnScheduleProps e k s))
         (take m (List.enumerate 0 (schedules props)))"
proof (cases "propsValidation props = None \<and> bucketResolves e props")
  case True
  then have v: "propsValidation props = None" and "bucketResolves e props"
    by simp_all
  then obtain bucket c where
    c: "localBucket e props [] = (Inr bucket, [c])"
       "constructId c = ''LogArchiveBucket'' \<or> constructId c = ''existingBucket''"
       "schedulesOf [c] = []"
    by (auto elim: bucket_step)
  from constructor_shape [OF v c(1,2)] obtain m where
    m: "m \<le> length (schedules props) \<and>
        snd (DailyCloudWatchLogArchiver e props) =
          [c, lambdaExecutionRole e bucket, lambdaFunction e bucket,
           schedulerExecutionRole e, scheduleGroup e]
          @ map (\<lambda>(k, s). cfnSchedule e k s) (take m (List.enumerate 0 (schedules props))) \<and>
        (fst (DailyCloudWatchLogArchiver e props) = None \<longleftrightarrow> m = length (schedules props))"
    ..
  have "schedulesOf [c, lambdaExecutionRole e bucket, lambdaFunction e bucket,
          schedulerExecutionRole e, scheduleGroup e] = []"
    using c(3)
    by (cases c) (simp_all add: lambdaExecutionRole_def lambdaFunction_def
        schedulerExecutionRole_def scheduleGroup_def)
  moreover from m have "schedulesOf (snd (DailyCloudWatchLogArchiver e props)) =
      schedulesOf [c, lambdaExecutionRole e bucket, lambdaFunction e bucket,
          schedulerExecutionRole e, scheduleGroup e]
      @ map (\<lambda>(k, s). (''Schedule'' @ idPrefix e s, cfnScheduleProps e k s))
         (take m (List.enumerate 0 (schedules props)))"
    by (simp only: schedulesOf_append schedulesOf_cfnSchedule)
  ultimately show ?thesis
    using m by (intro exI [of _ m]) simp
next
  case False
  then have "snd (DailyCloudWatchLogArchiver e props) = []"
    by (auto simp: DailyCloudWatchLogArchiver_def bucketResolves_def localBucket_def
        existingBucket_def split: option.splits sum.splits)
  then show ?thesis
    by (intro exI [of _ 0]) simp
qed

lemmas model_defs = DailyCloudWatchLogArchiver_def propsValidation_def localBucket_def
  logArchiveBucket_def existingBucket_def new_def andThen_def lambdaExecutionRole_def
  lambdaFunction_def schedulerExecutionRole_def scheduleGroup_def scheduleGroupName_def
  cfnSchedule_def cfnScheduleProps_def idPrefix_def randomNameKey_def digestHex_def hexDigit_def
  getBucketAclStatement_def putObjectStatement_def bucketResolves_def

lemmas sample_defs = sampleCdk_def sampleShake256_def sampleFromBucketName_def dailyAppLogs_def
  dailyAppLogsAgain_def sameNameTwiceSwapped_def threeJobs_def lenientCdk_def notABucket_def
  auditLogs_def oneJob_def twoJobs_def twoJobsSwapped_def sameNameTwice_def noJobs_def
  tooManyJobs_def shortBucketName_def

lemma of_char_digit: "(of_char (digit n) :: nat) = 48 + n mod 10"
proof -
  have "\<forall>k<10. (of_char (''0123456789'' ! k) :: nat) = 48 + k"
    by (simp add: eval_nat_numeral All_less_Suc)
  then show ?thesis
    by (simp add: digit_def)
qed

lemma decimal_value: "foldl (\<lambda>a c. 10 * a + (of_char c - 48)) 0 (decimal n) = n"
proof (induction n rule: decimal.induct)
  case (1 n)
  show ?case
  proof (cases "n < 10")
    case True
    then show ?thesis
      by (simp add: decimal.simps [of n] of_char_digit)
  next
    case False
    with 1 show ?thesis
      by (simp add: decimal.simps [of n] of_char_digit)
  qed
qed

lemma decimal_inj: "decimal m = decimal n \<Longrightarrow> m = n"
  by (metis decimal_value)

lemma map_enumerate_fst: "map (\<lambda>(k, s). f k) (List.enumerate n xs) = map f [n..<n + length xs]"
proof -
  have "map (\<lambda>(k, s). f k) es = map f (map fst es)" for es :: "(nat \<times> 'b) list"
    by (induction es) auto
  then show ?thesis
    by (simp only: map_fst_enumerate)
qed

lemma hexDigit_range: "hexDigit n \<in> set ''0123456789abcdef''"
  unfolding hexDigit_def by (rule nth_mem) simp

lemma digestHex_range: "set (digestHex w) \<subseteq> set ''0123456789abcdef''"
  unfolding digestHex_def set_map by (rule image_subsetI) (rule hexDigit_range)

section \<open>Validation\<close>

text \<open>
  C3: with an empty list of schedules, and with more than 60, the constructor throws, and
  it has created no child by then: no bucket, no role, no schedule group, no schedule.
\<close>

theorem validation_fails_before_any_resource:
  "(schedules props = [] \<longrightarrow>
      DailyCloudWatchLogArchiver e props = (Some (Error ''Schedule not set.''), []))
   \<and> (60 < length (schedules props) \<longrightarrow>
      DailyCloudWatchLogArchiver e props = (Some (Error ''Maximum number(60) of schedule.''), []))"
  by (auto simp: DailyCloudWatchLogArchiver_def propsValidation_def)

theorem validation_fails_before_any_resource_witness:
  "schedules noJobs = [] \<and> 60 < length (schedules tooManyJobs)
   \<and> DailyCloudWatchLogArchiver sampleCdk noJobs = (Some (Error ''Schedule not set.''), [])
   \<and> DailyCloudWatchLogArchiver sampleCdk tooManyJobs =
        (Some (Error ''Maximum number(60) of schedule.''), [])"
  using validation_fails_before_any_resource [of noJobs sampleCdk]
    validation_fails_before_any_resource [of tooManyJobs sampleCdk]
  by (simp add: noJobs_def tooManyJobs_def)

section \<open>One schedule per job\<close>

lemma cron_distinct: "distinct (map (\<lambda>k. ''cron('' @ decimal k @ '' 13 * * ? *)'') [0..<n])"
  by (auto simp: distinct_map intro!: inj_onI dest: decimal_inj)

text \<open>
  C1, as stated, fails: two jobs of the same name, here with different descriptions and
  targets, ask for the same construct id \<open>Schedule<fingerprint>\<close>; the scope refuses the
  second, and the constructor throws after one schedule.
\<close>

theorem same_name_twice_counterexample:
  "1 \<le> length (schedules sameNameTwice) \<and> length (schedules sameNameTwice) \<le> 60
   \<and> fst (DailyCloudWatchLogArchiver sampleCdk sameNameTwice) = Some (NameClash ''Scheduled2ce5d61'')
   \<and> length (schedulesOf (snd (DailyCloudWatchLogArchiver sampleCdk sameNameTwice))) = 1
   \<and> length (schedulesOf (snd (DailyCloudWatchLogArchiver sampleCdk sameNameTwice)))
       \<noteq> length (schedules sameNameTwice)"
  by (simp add: model_defs sample_defs)

text \<open>
  C1, amended: for 1 to 60 jobs whose name fingerprints are pairwise distinct and whose
  target bucket resolves, the constructor does not throw, and the schedules it creates are
  one per job in the order of the jobs: the schedule at position \<open>i\<close> has the name of job
  \<open>i\<close>, the expression \<open>cron(i 13 * * ? *)\<close> and the time zone UTC, and no two
  expressions are equal.
\<close>

theorem one_schedule_per_job:
  assumes "1 \<le> length (schedules props)" and "length (schedules props) \<le> 60"
    and "distinct (map (idPrefix e) (schedules props))"
    and "bucketResolves e props"
  shows "fst (DailyCloudWatchLogArchiver e props) = None
    \<and> map (\<lambda>(i, p). scheduleName p) (schedulesOf (snd (DailyCloudWatchLogArchiver e props)))
        = map name (schedules props)
    \<and> map (\<lambda>(i, p). scheduleExpression p) (schedulesOf (snd (DailyCloudWatchLogArchiver e props)))
        = map (\<lambda>k. ''cron('' @ decimal k @ '' 13 * * ? *)'') [0..<length (schedules props)]
    \<and> (\<forall>(i, p)\<in>set (schedulesOf (snd (DailyCloudWatchLogArchiver e props))).
          scheduleExpressionTimezone p = ''UTC'')
    \<and> distinct (map (\<lambda>(i, p). scheduleExpression p)
          (schedulesOf (snd (DailyCloudWatchLogArchiver e props))))"
proof -
  let ?es = "List.enumerate 0 (schedules props)"
  note run = completed_run [OF assms]
  have names: "map (\<lambda>(i, p). scheduleName p) (schedulesOf (snd (DailyCloudWatchLogArchiver e props)))
      = map (\<lambda>(k, s). name s) ?es"
    by (simp add: run(2) case_prod_beta cfnScheduleProps_def)
  have exprs: "map (\<lambda>(i, p). scheduleExpression p) (schedulesOf (snd (DailyCloudWatchLogArchiver e props)))
      = map (\<lambda>(k, s). ''cron('' @ decimal k @ '' 13 * * ? *)'') ?es"
    by (simp add: run(2) case_prod_beta cfnScheduleProps_def)
  have zones: "\<forall>(i, p)\<in>set (schedulesOf (snd (DailyCloudWatchLogArchiver e props))).
      scheduleExpressionTimezone p = ''UTC''"
    by (auto simp: run(2) cfnScheduleProps_def)
  have exprs': "map (\<lambda>(i, p). scheduleExpression p)
        (schedulesOf (snd (DailyCloudWatchLogArchiver e props)))
      = map (\<lambda>k. ''cron('' @ decimal k @ '' 13 * * ? *)'') [0..<length (schedules props)]"
    unfolding exprs map_enumerate_fst by simp
  show ?thesis
    unfolding exprs' names map_enumerate_snd
    by (intro conjI run(1) refl zones cron_distinct)
qed

theorem one_schedule_per_job_witness:
  "1 \<le> length (schedules twoJobs) \<and> length (schedules twoJobs) \<le> 60
   \<and> distinct (map (idPrefix sampleCdk) (schedules twoJobs))
   \<and> bucketResolves sampleCdk twoJobs
   \<and> fst (DailyCloudWatchLogArchiver sampleCdk twoJobs) = None
   \<and> map (\<lambda>(i, p). scheduleName p) (schedulesOf (snd (DailyCloudWatchLogArchiver sampleCdk twoJobs)))
       = [''daily-app-logs'', ''audit-logs'']
   \<and> map (\<lambda>(i, p). scheduleExpression p) (schedulesOf (snd (DailyCloudWatchLogArchiver sampleCdk twoJobs)))
       = [''cron(0 13 * * ? *)'', ''cron(1 13 * * ? *)'']"
proof -
  have h: "1 \<le> length (schedules twoJobs)" "length (schedules twoJobs) \<le> 60"
    "distinct (map (idPrefix sampleCdk) (schedules twoJobs))" "bucketResolves sampleCdk twoJobs"
    by (simp_all add: model_defs sample_defs)
  have d: "decimal 0 = ''0''" "decimal (Suc 0) = ''1''"
    by (simp_all add: decimal.simps digit_def)
  note r = one_schedule_per_job [OF h]
  have n: "map (\<lambda>(i, p). scheduleName p) (schedulesOf (snd (DailyCloudWatchLogArchiver sampleCdk twoJobs)))
       = [''daily-app-logs'', ''audit-logs'']"
    using r by (simp add: twoJobs_def dailyAppLogs_def auditLogs_def)
  have x: "map (\<lambda>(i, p). scheduleExpression p) (schedulesOf (snd (DailyCloudWatchLogArchiver sampleCdk twoJobs)))
       = [''cron(0 13 * * ? *)'', ''cron(1 13 * * ? *)'']"
    using r by (simp add: twoJobs_def upt_rec [of 0] upt_rec [of "Suc 0"] d)
  show ?thesis
    by (intro conjI h n x conjunct1 [OF r])
qed

section \<open>Payload and retry policy\<close>

text \<open>
  C8: whatever the input and however the run ends, the schedule created at position \<open>i\<close>
  carries as its input the JSON text of \<open>{logGroupName, destinationPrefix}\<close> taken from
  the target of job \<open>i\<close>, and the retry policy of 60 seconds and 0 attempts.
\<close>

theorem schedule_payload_and_retry:
  "\<forall>i<length (schedulesOf (snd (DailyCloudWatchLogArchiver e props))).
     input (scheduleTarget (snd (schedulesOf (snd (DailyCloudWatchLogArchiver e props)) ! i)))
       = JSON_stringify
           [(''logGroupName'', logGroupName (target (schedules props ! i))),
            (''destinationPrefix'', destinationPrefix (target (schedules props ! i)))]
     \<and> retryPolicy (scheduleTarget (snd (schedulesOf (snd (DailyCloudWatchLogArchiver e props)) ! i)))
       = \<lparr>maximumEventAgeInSeconds = 60, maximumRetryAttempts = 0\<rparr>"
proof (intro allI impI)
  fix i
  assume i: "i < length (schedulesOf (snd (DailyCloudWatchLogArchiver e props)))"
  let ?es = "List.enumerate 0 (schedules props)"
  from emitted_prefix [of props e] obtain m where
    m: "m \<le> length (schedules props) \<and>
        schedulesOf (snd (DailyCloudWatchLogArchiver e props)) =
          map (\<lambda>(k, s). (''Schedule'' @ idPrefix e s, cfnScheduleProps e k s)) (take m ?es)"
    ..
  with i have im: "i < m"
    by simp
  with m have "take m ?es ! i = (i, schedules props ! i)"
    by (simp add: nth_enumerate_eq)
  with m im have
    "schedulesOf (snd (DailyCloudWatchLogArchiver e props)) ! i =
       (''Schedule'' @ idPrefix e (schedules props ! i), cfnScheduleProps e i (schedules props ! i))"
    by simp
  then show
    "input (scheduleTarget (snd (schedulesOf (snd (DailyCloudWatchLogArchiver e props)) ! i)))
       = JSON_stringify
           [(''logGroupName'', logGroupName (target (schedules props ! i))),
            (''destinationPrefix'', destinationPrefix (target (schedules props ! i)))]
     \<and> retryPolicy (scheduleTarget (snd (schedulesOf (snd (DailyCloudWatchLogArchiver e props)) ! i)))
       = \<lparr>maximumEventAgeInSeconds = 60, maximumRetryAttempts = 0\<rparr>"
    by (simp add: cfnScheduleProps_def)
qed

theorem schedule_payload_and_retry_witness:
  "0 < length (schedulesOf (snd (DailyCloudWatchLogArchiver sampleCdk oneJob)))
   \<and> input (scheduleTarget (snd (schedulesOf (snd (DailyCloudWatchLogArchiver sampleCdk oneJob)) ! 0)))
       = [CHR ''{'', CHR 0x22] @ ''logGroupName'' @ [CHR 0x22, CHR '':'', CHR 0x22] @ ''/app/prod''
         @ [CHR 0x22, CHR '','', CHR 0x22] @ ''destinationPrefix'' @ [CHR 0x22, CHR '':'', CHR 0x22]
         @ ''app/'' @ [CHR 0x22, CHR ''}'']
   \<and> retryPolicy (scheduleTarget (snd (schedulesOf (snd (DailyCloudWatchLogArchiver sampleCdk oneJob)) ! 0)))
       = \<lparr>maximumEventAgeInSeconds = 60, maximumRetryAttempts = 0\<rparr>"
proof -
  have h: "0 < length (schedulesOf (snd (DailyCloudWatchLogArchiver sampleCdk oneJob)))"
    by (simp add: model_defs sample_defs)
  have j: "JSON_stringify [(''logGroupName'', ''/app/prod''), (''destinationPrefix'', ''app/'')]
       = [CHR ''{'', CHR 0x22] @ ''logGroupName'' @ [CHR 0x22, CHR '':'', CHR 0x22] @ ''/app/prod''
         @ [CHR 0x22, CHR '','', CHR 0x22] @ ''destinationPrefix'' @ [CHR 0x22, CHR '':'', CHR 0x22]
         @ ''app/'' @ [CHR 0x22, CHR ''}'']"
    by (simp add: JSON_stringify_def jsonString_def jsonEscape_def)
  from schedule_payload_and_retry [of sampleCdk oneJob] h
  have "input (scheduleTarget (snd (schedulesOf (snd (DailyCloudWatchLogArchiver sampleCdk oneJob)) ! 0)))
       = JSON_stringify
           [(''logGroupName'', logGroupName (target (schedules oneJob ! 0))),
            (''destinationPrefix'', destinationPrefix (target (schedules oneJob ! 0)))]
     \<and> retryPolicy (scheduleTarget (snd (schedulesOf (snd (DailyCloudWatchLogArchiver sampleCdk oneJob)) ! 0)))
       = \<lparr>maximumEventAgeInSeconds = 60, maximumRetryAttempts = 0\<rparr>"
    by blast
  then show ?thesis
    using h j by (simp add: oneJob_def dailyAppLogs_def)
qed

section \<open>The two bucket modes\<close>

lemma bucketsOf_children:
  assumes "propsValidation props = None"
    and "localBucket e props [] = (Inr bucket, [c])"
    and "constructId c = ''LogArchiveBucket'' \<or> constructId c = ''existingBucket''"
  shows "bucketsOf (snd (DailyCloudWatchLogArchiver e props)) = bucketsOf [c]"
proof -
  from constructor_shape [OF assms] obtain m where
    m: "m \<le> length (schedules props) \<and>
        snd (DailyCloudWatchLogArchiver e props) =
          [c, lambdaExecutionRole e bucket, lambdaFunction e bucket,
           schedulerExecutionRole e, scheduleGroup e]
          @ map (\<lambda>(k, s). cfnSchedule e k s) (take m (List.enumerate 0 (schedules props))) \<and>
        (fst (DailyCloudWatchLogArchiver e props) = None \<longleftrightarrow> m = length (schedules props))"
    ..
  then have "bucketsOf (snd (DailyCloudWatchLogArchiver e props)) =
      bucketsOf [c, lambdaExecutionRole e bucket, lambdaFunction e bucket,
           schedulerExecutionRole e, scheduleGroup e]"
    by (simp only: bucketsOf_append bucketsOf_cfnSchedule append_Nil2)
  also have "\<dots> = bucketsOf [c]"
    by (cases c) (simp_all add: lambdaExecutionRole_def lambdaFunction_def
        schedulerExecutionRole_def scheduleGroup_def)
  finally show ?thesis .
qed

text \<open>
  C2: on every input the bucket step takes one of two branches, and \<open>targetBucket\<close> alone
  decides which. With none, or the empty string, it creates one new bucket named
  \<open>log-archive-<suffix>\<close>, whose resource policy lets the logs service of the region read
  the bucket's ACL and put objects under the bucket with the ACL bucket-owner-full-control.
  With a non-empty name, it imports the bucket by that name through
  \<open>Bucket.fromBucketName\<close>, with no resource policy, and creates nothing when the import
  throws. For 1 to 60 jobs, the bucket of the step is the only bucket among the children.
\<close>

theorem bucket_mode_by_target_bucket:
  "localBucket e props [] =
     (if targetBucket props = None \<or> targetBucket props = Some [] then
        (Inr \<lparr>bucketName = refOf e ''LogArchiveBucket'', bucketARN = arnOf e ''LogArchiveBucket''\<rparr>,
         [SecureLogBucket ''LogArchiveBucket'' (''log-archive-'' @ randomNameKey e)
           [\<lparr>effect = ALLOW,
             principals = [''logs.'' @ region e @ ''.amazonaws.com''],
             actions = [''s3:GetBucketAcl''],
             resources = [arnOf e ''LogArchiveBucket''],
             conditions = []\<rparr>,
            \<lparr>effect = ALLOW,
             principals = [''logs.'' @ region e @ ''.amazonaws.com''],
             actions = [''s3:PutObject''],
             resources = [arnOf e ''LogArchiveBucket'' @ ''/*''],
             conditions = [(''StringEquals'', ''s3:x-amz-acl'', ''bucket-owner-full-control'')]\<rparr>]])
      else
        (case fromBucketName e (the (targetBucket props)) of
           Inl err \<Rightarrow> (Inl err, [])
         | Inr bucket \<Rightarrow> (Inr bucket, [ExistingBucket ''existingBucket'' bucket])))
   \<and> (1 \<le> length (schedules props) \<and> length (schedules props) \<le> 60 \<longrightarrow>
        bucketsOf (snd (DailyCloudWatchLogArchiver e props)) = snd (localBucket e props []))"
proof (intro conjI impI)
  show "localBucket e props [] =
     (if targetBucket props = None \<or> targetBucket props = Some [] then
        (Inr \<lparr>bucketName = refOf e ''LogArchiveBucket'', bucketARN = arnOf e ''LogArchiveBucket''\<rparr>,
         [SecureLogBucket ''LogArchiveBucket'' (''log-archive-'' @ randomNameKey e)
           [\<lparr>effect = ALLOW,
             principals = [''logs.'' @ region e @ ''.amazonaws.com''],
             actions = [''s3:GetBucketAcl''],
             resources = [arnOf e ''LogArchiveBucket''],
             conditions = []\<rparr>,
            \<lparr>effect = ALLOW,
             principals = [''logs.'' @ region e @ ''.amazonaws.com''],
             actions = [''s3:PutObject''],
             resources = [arnOf e ''LogArchiveBucket'' @ ''/*''],
             conditions = [(''StringEquals'', ''s3:x-amz-acl'', ''bucket-owner-full-control'')]\<rparr>]])
      else
        (case fromBucketName e (the (targetBucket props)) of
           Inl err \<Rightarrow> (Inl err, [])
         | Inr bucket \<Rightarrow> (Inr bucket, [ExistingBucket ''existingBucket'' bucket])))"
  proof (cases "targetBucket props = None \<or> targetBucket props = Some []")
    case True
    then show ?thesis
      by (simp add: localBucket_managed [OF True] logArchiveBucket_run getBucketAclStatement_def
          putObjectStatement_def)
  next
    case False
    then obtain b where b: "targetBucket props = Some b" "b \<noteq> []"
      by auto
    show ?thesis
    proof (cases "fromBucketName e b")
      case (Inl err)
      with False b localBucket_throws [OF b Inl] show ?thesis
        by simp
    next
      case (Inr bucket)
      with False b localBucket_existing [OF b Inr] show ?thesis
        by simp
    qed
  qed
next
  assume "1 \<le> length (schedules props) \<and> length (schedules props) \<le> 60"
  then have v: "propsValidation props = None"
    by (simp add: propsValidation_None)
  show "bucketsOf (snd (DailyCloudWatchLogArchiver e props)) = snd (localBucket e props [])"
  proof (cases "targetBucket props = None \<or> targetBucket props = Some []")
    case True
    note step = trans [OF localBucket_managed [OF True] logArchiveBucket_run]
    have "bucketsOf (snd (DailyCloudWatchLogArchiver e props)) =
        bucketsOf [SecureLogBucket ''LogArchiveBucket'' (''log-archive-'' @ randomNameKey e)
         [getBucketAclStatement e, putObjectStatement e]]"
      by (rule bucketsOf_children [OF v step]) simp
    then show ?thesis
      by (simp add: step)
  next
    case False
    then obtain b where b: "targetBucket props = Some b" "b \<noteq> []"
      by auto
    show ?thesis
    proof (cases "fromBucketName e b")
      case (Inl err)
      from localBucket_throws [OF b Inl] show ?thesis
        by (simp add: DailyCloudWatchLogArchiver_def v)
    next
      case (Inr bucket)
      note step = localBucket_existing [OF b Inr]
      have "bucketsOf (snd (DailyCloudWatchLogArchiver e props)) =
          bucketsOf [ExistingBucket ''existingBucket'' bucket]"
        by (rule bucketsOf_children [OF v step]) simp
      then show ?thesis
        by (simp add: step)
    qed
  qed
qed

theorem bucket_mode_by_target_bucket_witness:
  "1 \<le> length (schedules oneJob) \<and> length (schedules oneJob) \<le> 60
   \<and> 1 \<le> length (schedules twoJobs) \<and> length (schedules twoJobs) \<le> 60
   \<and> bucketsOf (snd (DailyCloudWatchLogArchiver sampleCdk oneJob)) =
        [SecureLogBucket ''LogArchiveBucket'' ''log-archive-cbe6d711''
          [\<lparr>effect = ALLOW,
            principals = [''logs.us-east-1.amazonaws.com''],
            actions = [''s3:GetBucketAcl''],
            resources = [''Arn:LogArchiveBucket''],
            conditions = []\<rparr>,
           \<lparr>effect = ALLOW,
            principals = [''logs.us-east-1.amazonaws.com''],
            actions = [''s3:PutObject''],
            resources = [''Arn:LogArchiveBucket/*''],
            conditions = [(''StringEquals'', ''s3:x-amz-acl'', ''bucket-owner-full-control'')]\<rparr>]]
   \<and> bucketsOf (snd (DailyCloudWatchLogArchiver sampleCdk twoJobs)) =
        [ExistingBucket ''existingBucket''
          \<lparr>bucketName = ''existing-bucket'', bucketARN = ''arn:aws:s3:::existing-bucket''\<rparr>]
   \<and> localBucket sampleCdk shortBucketName [] = (Inl (Error ''Invalid S3 bucket name''), [])"
proof -
  have h1: "1 \<le> length (schedules oneJob) \<and> length (schedules oneJob) \<le> 60"
    by (simp add: oneJob_def)
  have h2: "1 \<le> length (schedules twoJobs) \<and> length (schedules twoJobs) \<le> 60"
    by (simp add: twoJobs_def)
  have k: "randomNameKey sampleCdk = ''cbe6d711''"
    by (simp add: model_defs sample_defs)
  note r1 = bucket_mode_by_target_bucket [of sampleCdk oneJob]
  note r2 = bucket_mode_by_target_bucket [of sampleCdk twoJobs]
  note r3 = bucket_mode_by_target_bucket [of sampleCdk shortBucketName]
  have b1: "bucketsOf (snd (DailyCloudWatchLogArchiver sampleCdk oneJob)) =
        [SecureLogBucket ''LogArchiveBucket'' ''log-archive-cbe6d711''
          [\<lparr>effect = ALLOW,
            principals = [''logs.us-east-1.amazonaws.com''],
            actions = [''s3:GetBucketAcl''],
            resources = [''Arn:LogArchiveBucket''],
            conditions = []\<rparr>,
           \<lparr>effect = ALLOW,
            principals = [''logs.us-east-1.amazonaws.com''],
            actions = [''s3:PutObject''],
            resources = [''Arn:LogArchiveBucket/*''],
            conditions = [(''StringEquals'', ''s3:x-amz-acl'', ''bucket-owner-full-control'')]\<rparr>]]"
    unfolding r1 [THEN conjunct2, THEN mp, OF h1] r1 [THEN conjunct1] k
    by (simp add: oneJob_def sampleCdk_def)
  have b2: "bucketsOf (snd (DailyCloudWatchLogArchiver sampleCdk twoJobs)) =
        [ExistingBucket ''existingBucket''
          \<lparr>bucketName = ''existing-bucket'', bucketARN = ''arn:aws:s3:::existing-bucket''\<rparr>]"
    unfolding r2 [THEN conjunct2, THEN mp, OF h2] r2 [THEN conjunct1]
    by (simp add: twoJobs_def sampleCdk_def sampleFromBucketName_def)
  have b3: "localBucket sampleCdk shortBucketName [] = (Inl (Error ''Invalid S3 bucket name''), [])"
    unfolding r3 [THEN conjunct1]
    by (simp add: shortBucketName_def sampleCdk_def sampleFromBucketName_def)
  show ?thesis
    by (intro conjI conjunct1 [OF h1] conjunct2 [OF h1] conjunct1 [OF h2] conjunct2 [OF h2] b1 b2 b3)
qed

section \<open>The two roles\<close>

lemma rolesOf_children:
  assumes "propsValidation props = None"
    and "localBucket e props [] = (Inr bucket, [c])"
    and "constructId c = ''LogArchiveBucket'' \<or> constructId c = ''existingBucket''"
    and "rolesOf [c] = []"
  shows "rolesOf (snd (DailyCloudWatchLogArchiver e props)) =
           rolesOf [lambdaExecutionRole e bucket, schedulerExecutionRole e]"
proof -
  from constructor_shape [OF assms(1-3)] obtain m where
    m: "m \<le> length (schedules props) \<and>
        snd (DailyCloudWatchLogArchiver e props) =
          [c, lambdaExecutionRole e bucket, lambdaFunction e bucket,
           schedulerExecutionRole e, scheduleGroup e]
          @ map (\<lambda>(k, s). cfnSchedule e k s) (take m (List.enumerate 0 (schedules props))) \<and>
        (fst (DailyCloudWatchLogArchiver e props) = None \<longleftrightarrow> m = length (schedules props))"
    ..
  then have "rolesOf (snd (DailyCloudWatchLogArchiver e props)) =
      rolesOf [c, lambdaExecutionRole e bucket, lambdaFunction e bucket,
           schedulerExecutionRole e, scheduleGroup e]"
    by (simp only: rolesOf_append rolesOf_cfnSchedule append_Nil2)
  also have "\<dots> = rolesOf [lambdaExecutionRole e bucket, schedulerExecutionRole e]"
    using assms(4)
    by (cases c) (simp_all add: lambdaExecutionRole_def lambdaFunction_def
        schedulerExecutionRole_def scheduleGroup_def)
  finally show ?thesis .
qed

lemma function_child:
  assumes "propsValidation props = None"
    and "localBucket e props [] = (Inr bucket, [c])"
    and "constructId c = ''LogArchiveBucket'' \<or> constructId c = ''existingBucket''"
  shows "lambdaFunction e bucket \<in> set (snd (DailyCloudWatchLogArchiver e props))"
proof -
  from constructor_shape [OF assms(1-3)] obtain m where
    m: "m \<le> length (schedules props) \<and>
        snd (DailyCloudWatchLogArchiver e props) =
          [c, lambdaExecutionRole e bucket, lambdaFunction e bucket,
           schedulerExecutionRole e, scheduleGroup e]
          @ map (\<lambda>(k, s). cfnSchedule e k s) (take m (List.enumerate 0 (schedules props))) \<and>
        (fst (DailyCloudWatchLogArchiver e props) = None \<longleftrightarrow> m = length (schedules props))"
    ..
  then show ?thesis
    by simp
qed

text \<open>
  C7: for 1 to 60 jobs and a target bucket that resolves, the constructor creates two
  roles. The one under the id \<open>SchedulerExecutionRole\<close> is assumed by
  \<open>scheduler.amazonaws.com\<close>, has no managed policy, and has one inline policy of one
  statement: \<open>lambda:InvokeFunction\<close> on the ARN of the child \<open>LogArchiveFunction\<close> and on
  that ARN followed by \<open>:*\<close>. The child \<open>LogArchiveFunction\<close> is the export function.
\<close>

theorem scheduler_role_invokes_export_function_only:
  assumes "1 \<le> length (schedules props)" and "length (schedules props) \<le> 60"
    and "bucketResolves e props"
  shows "map fst (rolesOf (snd (DailyCloudWatchLogArchiver e props)))
           = [''LambdaExecutionRole'', ''SchedulerExecutionRole'']
    \<and> map_of (rolesOf (snd (DailyCloudWatchLogArchiver e props))) ''SchedulerExecutionRole''
        = Some \<lparr>roleName = None,
                roleDescription = None,
                assumedBy = ''scheduler.amazonaws.com'',
                managedPolicies = [],
                inlinePolicies =
                  [(''lambda-invoke-policy'',
                    [\<lparr>effect = ALLOW, principals = [], actions = [''lambda:InvokeFunction''],
                      resources = [arnOf e ''LogArchiveFunction'',
                                   arnOf e ''LogArchiveFunction'' @ '':*''],
                      conditions = []\<rparr>])]\<rparr>
    \<and> (\<exists>p. LogArchiverFunction ''LogArchiveFunction'' p
           \<in> set (snd (DailyCloudWatchLogArchiver e props)))"
proof -
  have v: "propsValidation props = None"
    using assms(1,2) by (simp add: propsValidation_None)
  from assms(3) obtain bucket c where
    c: "localBucket e props [] = (Inr bucket, [c])"
       "constructId c = ''LogArchiveBucket'' \<or> constructId c = ''existingBucket''"
       "rolesOf [c] = []"
    by (auto elim: bucket_step)
  have f: "\<exists>p. LogArchiverFunction ''LogArchiveFunction'' p
           \<in> set (snd (DailyCloudWatchLogArchiver e props))"
    using function_child [OF v c(1,2)] unfolding lambdaFunction_def by (rule exI)
  show ?thesis
    unfolding rolesOf_children [OF v c]
    by (simp add: lambdaExecutionRole_def schedulerExecutionRole_def f)
qed

theorem scheduler_role_invokes_export_function_only_witness:
  "1 \<le> length (schedules twoJobs) \<and> length (schedules twoJobs) \<le> 60
   \<and> bucketResolves sampleCdk twoJobs
   \<and> map_of (rolesOf (snd (DailyCloudWatchLogArchiver sampleCdk twoJobs))) ''SchedulerExecutionRole''
        = Some \<lparr>roleName = None,
                roleDescription = None,
                assumedBy = ''scheduler.amazonaws.com'',
                managedPolicies = [],
                inlinePolicies =
                  [(''lambda-invoke-policy'',
                    [\<lparr>effect = ALLOW, principals = [], actions = [''lambda:InvokeFunction''],
                      resources = [''Arn:LogArchiveFunction'', ''Arn:LogArchiveFunction:*''],
                      conditions = []\<rparr>])]\<rparr>"
proof -
  have h: "1 \<le> length (schedules twoJobs)" "length (schedules twoJobs) \<le> 60"
    "bucketResolves sampleCdk twoJobs"
    by (simp_all add: bucketResolves_def twoJobs_def sampleCdk_def sampleFromBucketName_def)
  note r = scheduler_role_invokes_export_function_only [OF h]
  have "map_of (rolesOf (snd (DailyCloudWatchLogArchiver sampleCdk twoJobs))) ''SchedulerExecutionRole''
        = Some \<lparr>roleName = None,
                roleDescription = None,
                assumedBy = ''scheduler.amazonaws.com'',
                managedPolicies = [],
                inlinePolicies =
                  [(''lambda-invoke-policy'',
                    [\<lparr>effect = ALLOW, principals = [], actions = [''lambda:InvokeFunction''],
                      resources = [''Arn:LogArchiveFunction'', ''Arn:LogArchiveFunction:*''],
                      conditions = []\<rparr>])]\<rparr>"
    unfolding r [THEN conjunct2, THEN conjunct1] by (simp add: sampleCdk_def)
  with h show ?thesis
    by (intro conjI)
qed

section \<open>The execution role of the function\<close>

text \<open>
  C4 holds but for the scope of the bucket statement. On the input of one job and no target
  bucket, the role \<open>LambdaExecutionRole\<close> is assumed by \<open>lambda.amazonaws.com\<close>, has the
  managed policy \<open>service-role/AWSLambdaBasicExecutionRole\<close>, and allows
  \<open>logs:CreateExportTask\<close> on \<open>*\<close>; it allows \<open>s3:GetBucketAcl\<close> and \<open>s3:PutObject\<close> on the
  ARN of the bucket alone, and the ARN followed by \<open>/*\<close>, the objects of the bucket, is
  not among the resources of any of its statements.
\<close>

theorem lambda_role_bucket_statement_scope:
  "map_of (rolesOf (snd (DailyCloudWatchLogArchiver sampleCdk oneJob))) ''LambdaExecutionRole''
     = Some \<lparr>roleName = Some ''daily-cw-log-archiver-lambda-exec-cbe6d711-role'',
             roleDescription = Some '''',
             assumedBy = ''lambda.amazonaws.com'',
             managedPolicies = [''service-role/AWSLambdaBasicExecutionRole''],
             inlinePolicies =
               [(''log-export-policy'',
                 [\<lparr>effect = ALLOW, principals = [], actions = [''logs:CreateExportTask''],
                   resources = [''*''], conditions = []\<rparr>]),
                (''put-bucket-policy'',
                 [\<lparr>effect = ALLOW, principals = [],
                   actions = [''s3:GetBucketAcl'', ''s3:PutObject''],
                   resources = [''Arn:LogArchiveBucket''], conditions = []\<rparr>])]\<rparr>
   \<and> arnOf sampleCdk ''LogArchiveBucket'' = ''Arn:LogArchiveBucket''
   \<and> ''Arn:LogArchiveBucket/*''
       \<notin> set (concat (map resources (concat (map snd (inlinePolicies
             (the (map_of (rolesOf (snd (DailyCloudWatchLogArchiver sampleCdk oneJob)))
                ''LambdaExecutionRole'')))))))"
  by (simp add: model_defs sample_defs)

section \<open>Reordering the jobs\<close>

lemma nth_schedulesOf:
  assumes "1 \<le> length (schedules props)" and "length (schedules props) \<le> 60"
    and "distinct (map (idPrefix e) (schedules props))"
    and "bucketResolves e props"
    and "i < length (schedules props)"
  shows "schedulesOf (snd (DailyCloudWatchLogArchiver e props)) ! i =
           (''Schedule'' @ idPrefix e (schedules props ! i),
            cfnScheduleProps e i (schedules props ! i))"
  unfolding completed_run(2) [OF assms(1-4)] using assms(5) by (simp add: nth_enumerate_eq)

text \<open>
  C5, as stated, fails: of two jobs of the same name only the one that stands first gets a
  schedule, so a job that is moved behind its namesake has an identifier in one derivation
  and none in the other.
\<close>

theorem reordering_same_name_counterexample:
  "mset (schedules sameNameTwiceSwapped) = mset (schedules sameNameTwice)
   \<and> schedules sameNameTwiceSwapped ! 0 = schedules sameNameTwice ! 1
   \<and> schedules sameNameTwiceSwapped ! 1 = schedules sameNameTwice ! 0
   \<and> fst (DailyCloudWatchLogArchiver sampleCdk sameNameTwice) = Some (NameClash ''Scheduled2ce5d61'')
   \<and> fst (DailyCloudWatchLogArchiver sampleCdk sameNameTwiceSwapped)
       = Some (NameClash ''Scheduled2ce5d61'')
   \<and> map (\<lambda>(i, p). (i, scheduleDescription p, scheduleExpression p))
         (schedulesOf (snd (DailyCloudWatchLogArchiver sampleCdk sameNameTwice)))
       = [(''Scheduled2ce5d61'', ''d'', ''cron(0 13 * * ? *)'')]
   \<and> map (\<lambda>(i, p). (i, scheduleDescription p, scheduleExpression p))
         (schedulesOf (snd (DailyCloudWatchLogArchiver sampleCdk sameNameTwiceSwapped)))
       = [(''Scheduled2ce5d61'', ''again'', ''cron(0 13 * * ? *)'')]"
  by (simp add: model_defs sample_defs decimal.simps digit_def)

text \<open>
  C5, amended: let two inputs hold the same jobs in different orders, the first with 1 to 60
  jobs of pairwise distinct fingerprints, and let the target bucket resolve in both. Then
  both runs complete, and a job that stands at position \<open>i\<close> in the first and at position
  \<open>j\<close> in the second has the same construct id \<open>Schedule<fingerprint of its name>\<close> in
  both, with the expression \<open>cron(i 13 * * ? *)\<close> in the first and \<open>cron(j 13 * * ? *)\<close>
  in the second.
\<close>

theorem reordering_keeps_identifiers:
  assumes "1 \<le> length (schedules props)" and "length (schedules props) \<le> 60"
    and "distinct (map (idPrefix e) (schedules props))"
    and "bucketResolves e props" and "bucketResolves e props'"
    and "mset (schedules props') = mset (schedules props)"
    and "i < length (schedules props)" and "j < length (schedules props')"
    and "schedules props' ! j = schedules props ! i"
  shows "fst (DailyCloudWatchLogArchiver e props) = None
    \<and> fst (DailyCloudWatchLogArchiver e props') = None
    \<and> fst (schedulesOf (snd (DailyCloudWatchLogArchiver e props)) ! i)
        = ''Schedule'' @ idPrefix e (schedules props ! i)
    \<and> fst (schedulesOf (snd (DailyCloudWatchLogArchiver e props')) ! j)
        = ''Schedule'' @ idPrefix e (schedules props ! i)
    \<and> scheduleExpression (snd (schedulesOf (snd (DailyCloudWatchLogArchiver e props)) ! i))
        = ''cron('' @ decimal i @ '' 13 * * ? *)''
    \<and> scheduleExpression (snd (schedulesOf (snd (DailyCloudWatchLogArchiver e props')) ! j))
        = ''cron('' @ decimal j @ '' 13 * * ? *)''"
proof -
  have len: "length (schedules props') = length (schedules props)"
    using assms(6) by (rule mset_eq_length)
  have "mset (map (idPrefix e) (schedules props')) = mset (map (idPrefix e) (schedules props))"
    using assms(6) by (metis mset_map)
  then have "distinct (map (idPrefix e) (schedules props'))
      \<longleftrightarrow> distinct (map (idPrefix e) (schedules props))"
    by (rule mset_eq_imp_distinct_iff)
  then have d: "distinct (map (idPrefix e) (schedules props'))"
    using assms(3) by (rule iffD2)
  have h': "1 \<le> length (schedules props')" "length (schedules props') \<le> 60"
    using assms(1,2) len by simp_all
  show ?thesis
    using completed_run(1) [OF assms(1-4)] completed_run(1) [OF h' d assms(5)]
      nth_schedulesOf [OF assms(1-4) assms(7)] nth_schedulesOf [OF h' d assms(5) assms(8)]
    by (simp add: assms(9) cfnScheduleProps_def)
qed

theorem reordering_keeps_identifiers_witness:
  "1 \<le> length (schedules twoJobs) \<and> length (schedules twoJobs) \<le> 60
   \<and> distinct (map (idPrefix sampleCdk) (schedules twoJobs))
   \<and> bucketResolves sampleCdk twoJobs \<and> bucketResolves sampleCdk twoJobsSwapped
   \<and> mset (schedules twoJobsSwapped) = mset (schedules twoJobs)
   \<and> schedules twoJobsSwapped ! 1 = schedules twoJobs ! 0
   \<and> fst (schedulesOf (snd (DailyCloudWatchLogArchiver sampleCdk twoJobs)) ! 0)
       = ''Scheduled2ce5d61''
   \<and> fst (schedulesOf (snd (DailyCloudWatchLogArchiver sampleCdk twoJobsSwapped)) ! 1)
       = ''Scheduled2ce5d61''
   \<and> scheduleExpression (snd (schedulesOf (snd (DailyCloudWatchLogArchiver sampleCdk twoJobs)) ! 0))
       = ''cron(0 13 * * ? *)''
   \<and> scheduleExpression
         (snd (schedulesOf (snd (DailyCloudWatchLogArchiver sampleCdk twoJobsSwapped)) ! 1))
       = ''cron(1 13 * * ? *)''"
proof -
  have h: "1 \<le> length (schedules twoJobs)" "length (schedules twoJobs) \<le> 60"
    "distinct (map (idPrefix sampleCdk) (schedules twoJobs))"
    "bucketResolves sampleCdk twoJobs" "bucketResolves sampleCdk twoJobsSwapped"
    "mset (schedules twoJobsSwapped) = mset (schedules twoJobs)"
    by (simp_all add: model_defs sample_defs)
  have ij: "0 < length (schedules twoJobs)" "1 < length (schedules twoJobsSwapped)"
    "schedules twoJobsSwapped ! 1 = schedules twoJobs ! 0"
    by (simp_all add: twoJobs_def twoJobsSwapped_def)
  have p: "idPrefix sampleCdk (schedules twoJobs ! 0) = ''d2ce5d61''"
    by (simp add: model_defs sample_defs)
  have d: "decimal 0 = ''0''" "decimal 1 = ''1''"
    by (simp_all add: decimal.simps digit_def)
  note r = reordering_keeps_identifiers [OF h ij]
  have c1: "fst (schedulesOf (snd (DailyCloudWatchLogArchiver sampleCdk twoJobs)) ! 0)
       = ''Scheduled2ce5d61''"
    using r p by simp
  have c2: "fst (schedulesOf (snd (DailyCloudWatchLogArchiver sampleCdk twoJobsSwapped)) ! 1)
       = ''Scheduled2ce5d61''"
    using r p by simp
  have c3: "scheduleExpression (snd (schedulesOf (snd (DailyCloudWatchLogArchiver sampleCdk twoJobs)) ! 0))
       = ''cron(0 13 * * ? *)''"
    using r d by simp
  have c4: "scheduleExpression
         (snd (schedulesOf (snd (DailyCloudWatchLogArchiver sampleCdk twoJobsSwapped)) ! 1))
       = ''cron(1 13 * * ? *)''"
    using r d by simp
  show ?thesis
    by (intro conjI h ij(3) c1 c2 c3 c4)
qed

section \<open>A fingerprint that repeats\<close>

lemma scheduleLoop_append:
  "scheduleLoop e (es1 @ es2) cs =
     (case scheduleLoop e es1 cs of
        (Some err, cs') \<Rightarrow> (Some err, cs')
      | (None, cs') \<Rightarrow> scheduleLoop e es2 cs')"
proof (induction es1 arbitrary: cs)
  case Nil
  then show ?case by simp
next
  case (Cons a es1)
  obtain k s where a: "a = (k, s)" by (cases a)
  show ?case
    unfolding a
    by (cases "new (cfnSchedule e k s) cs") (auto simp: andThen_def Cons.IH split: option.splits)
qed

lemma enumerate_split:
  assumes "k < length xs"
  shows "List.enumerate 0 xs =
           List.enumerate 0 (take k xs) @ (k, xs ! k) # List.enumerate (Suc k) (drop (Suc k) xs)"
proof -
  have "List.enumerate 0 xs = List.enumerate 0 (take k xs @ xs ! k # drop (Suc k) xs)"
    using assms by (simp add: id_take_nth_drop [symmetric])
  also have "\<dots> = List.enumerate 0 (take k xs) @ (k, xs ! k) # List.enumerate (Suc k) (drop (Suc k) xs)"
    using assms by (simp add: enumerate_append_eq min_def)
  finally show ?thesis .
qed

lemma constructor_clash:
  assumes "propsValidation props = None"
    and "localBucket e props [] = (Inr bucket, [c])"
    and "constructId c = ''LogArchiveBucket'' \<or> constructId c = ''existingBucket''"
    and "k < length (schedules props)"
    and "distinct (map (idPrefix e) (take k (schedules props)))"
    and "idPrefix e (schedules props ! k) \<in> set (map (idPrefix e) (take k (schedules props)))"
  shows "DailyCloudWatchLogArchiver e props =
           (Some (NameClash (''Schedule'' @ idPrefix e (schedules props ! k))),
            [c, lambdaExecutionRole e bucket, lambdaFunction e bucket,
             schedulerExecutionRole e, scheduleGroup e]
            @ map (\<lambda>(n, s). cfnSchedule e n s) (List.enumerate 0 (take k (schedules props))))"
proof -
  let ?ss = "schedules props"
  let ?es1 = "List.enumerate 0 (take k ?ss)"
  let ?rest = "(k, ?ss ! k) # List.enumerate (Suc k) (drop (Suc k) ?ss)"
  let ?cs = "[c, lambdaExecutionRole e bucket, lambdaFunction e bucket,
              schedulerExecutionRole e, scheduleGroup e]"
  let ?cs1 = "?cs @ map (\<lambda>(n, s). cfnSchedule e n s) ?es1"
  have d: "distinct (map (\<lambda>(n, s). idPrefix e s) ?es1)"
    using assms(5) by (simp add: map_enumerate_snd)
  have ids: "constructId ` set ?cs \<subseteq> fixedIds"
    using assms(3)
    by (auto simp: fixedIds_def lambdaExecutionRole_def lambdaFunction_def
        schedulerExecutionRole_def scheduleGroup_def)
  have "''Schedule'' @ idPrefix e s \<notin> constructId ` set ?cs" for s
    using ids schedule_id_not_fixed [of e s] by blast
  then have f: "\<forall>(n, s)\<in>set ?es1. ''Schedule'' @ idPrefix e s \<notin> constructId ` set ?cs"
    by blast
  have first: "scheduleLoop e ?es1 ?cs = (None, ?cs1)"
    by (rule scheduleLoop_fresh [OF d f])
  have "map constructId (map (\<lambda>(n, s). cfnSchedule e n s) ?es1)
      = map (\<lambda>(n, s). ''Schedule'' @ idPrefix e s) ?es1"
    by (simp add: case_prod_beta constructId_cfnSchedule)
  also have "\<dots> = map (\<lambda>s. ''Schedule'' @ idPrefix e s) (take k ?ss)"
    by (rule map_enumerate_snd)
  finally have "set (map constructId (map (\<lambda>(n, s). cfnSchedule e n s) ?es1))
      = (\<lambda>s. ''Schedule'' @ idPrefix e s) ` set (take k ?ss)"
    by simp
  moreover have "''Schedule'' @ idPrefix e (?ss ! k) \<in> (\<lambda>s. ''Schedule'' @ idPrefix e s) ` set (take k ?ss)"
    using assms(6) by auto
  ultimately have "constructId (cfnSchedule e k (?ss ! k)) \<in> constructId ` set ?cs1"
    unfolding constructId_cfnSchedule set_append image_Un set_map [symmetric] by blast
  then have second: "scheduleLoop e ?rest ?cs1 =
      (Some (NameClash (''Schedule'' @ idPrefix e (?ss ! k))), ?cs1)"
    by (simp add: andThen_def new_clash constructId_cfnSchedule del: set_append)
  show ?thesis
    unfolding constructor_after_bucket [OF assms(1-3)] enumerate_split [OF assms(4)]
      scheduleLoop_append first
    using second by simp
qed

lemma first_repeat:
  assumes "i < j" and "j < length xs" and "f (xs ! i) = f (xs ! j)"
  obtains k where "k \<le> j" and "distinct (map f (take k xs))"
    and "f (xs ! k) \<in> set (map f (take k xs))"
proof -
  let ?ys = "map f (take (Suc j) xs)"
  have "?ys ! i = ?ys ! j" "i < length ?ys" "j < length ?ys" "i \<noteq> j"
    using assms by simp_all
  then have "\<not> distinct ?ys"
    using nth_eq_iff_index_eq by blast
  then obtain as y bs where split: "y \<in> set as" "distinct as" "?ys = as @ y # bs"
    unfolding not_distinct_conv_prefix by blast
  let ?k = "length as"
  have "length ?ys = Suc j"
    using assms(2) by simp
  with split(3) have k: "?k \<le> j"
    by (metis length_append length_Cons Suc_le_mono le_add1 add_Suc_right)
  have "take ?k ?ys = as"
    by (simp add: split(3))
  then have as: "map f (take ?k xs) = as"
    using k by (simp add: take_map min_def)
  have "?ys ! ?k = y"
    by (simp add: split(3))
  then have y: "f (xs ! ?k) = y"
    using k assms(2) by simp
  show ?thesis
    by (rule that [of ?k]) (use k as y split in simp_all)
qed


section \<open>A target bucket that is not the name of a bucket\<close>




section \<open>Jobs of the same name\<close>

text \<open>
  C10, as stated, fails: two jobs of the same name are not both given an identifier. On three
  jobs of which the last two have the same name, the validation passes, the first two get
  their schedules, and the third is refused: it gets no construct id and no schedule name.
\<close>

theorem same_name_refused_counterexample:
  "name (schedules threeJobs ! 1) = name (schedules threeJobs ! 2)
   \<and> propsValidation threeJobs = None
   \<and> fst (DailyCloudWatchLogArchiver sampleCdk threeJobs) = Some (NameClash ''Scheduled2ce5d61'')
   \<and> map (\<lambda>(i, p). (i, scheduleName p, scheduleDescription p))
         (schedulesOf (snd (DailyCloudWatchLogArchiver sampleCdk threeJobs)))
       = [(''Schedule0231c397'', ''audit-logs'', ''a''),
          (''Scheduled2ce5d61'', ''daily-app-logs'', ''d'')]"
  by (simp add: model_defs sample_defs)

text \<open>
  C10, amended: the length checks are the only validation of the job list, and the names are
  not compared there: a list of 1 to 60 jobs passes whatever the names. Two jobs of the same
  name, at the positions \<open>i < j\<close> of such a list, have the same fingerprint of eight
  hexadecimal digits and so ask for the same construct id. With a target bucket that
  resolves, the constructor then throws: at the first position \<open>k\<close>, at most \<open>j\<close>, whose
  fingerprint repeats an earlier one, the scope refuses the id \<open>Schedule<fingerprint>\<close>, and
  the schedules created are those of the jobs before \<open>k\<close>. The job at \<open>j\<close> gets no schedule.
\<close>

theorem same_name_stops_the_run:
  assumes "1 \<le> length (schedules props)" and "length (schedules props) \<le> 60"
    and "bucketResolves e props"
    and "i < j" and "j < length (schedules props)"
    and "name (schedules props ! i) = name (schedules props ! j)"
  shows "propsValidation props = None
    \<and> idPrefix e (schedules props ! i) = idPrefix e (schedules props ! j)
    \<and> length (idPrefix e (schedules props ! i)) = 8
    \<and> set (idPrefix e (schedules props ! i)) \<subseteq> set ''0123456789abcdef''
    \<and> constructId (cfnSchedule e i (schedules props ! i))
        = constructId (cfnSchedule e j (schedules props ! j))
    \<and> (\<exists>k. 0 < k \<and> k \<le> j
          \<and> distinct (map (idPrefix e) (take k (schedules props)))
          \<and> idPrefix e (schedules props ! k) \<in> set (map (idPrefix e) (take k (schedules props)))
          \<and> fst (DailyCloudWatchLogArchiver e props)
              = Some (NameClash (''Schedule'' @ idPrefix e (schedules props ! k)))
          \<and> schedulesOf (snd (DailyCloudWatchLogArchiver e props))
              = map (\<lambda>(n, s). (''Schedule'' @ idPrefix e s, cfnScheduleProps e n s))
                  (List.enumerate 0 (take k (schedules props))))"
proof -
  let ?ss = "schedules props"
  have v: "propsValidation props = None"
    using assms(1,2) by (simp add: propsValidation_None)
  have same: "idPrefix e (?ss ! i) = idPrefix e (?ss ! j)"
    using assms(6) by (simp add: idPrefix_def)
  have len: "length (idPrefix e (?ss ! i)) = 8"
    by (rule length_idPrefix)
  have hex: "set (idPrefix e (?ss ! i)) \<subseteq> set ''0123456789abcdef''"
    unfolding idPrefix_def by (rule digestHex_range)
  have ids: "constructId (cfnSchedule e i (?ss ! i)) = constructId (cfnSchedule e j (?ss ! j))"
    by (simp only: constructId_cfnSchedule same)
  from assms(3) obtain bucket c where
    c: "localBucket e props [] = (Inr bucket, [c])"
       "constructId c = ''LogArchiveBucket'' \<or> constructId c = ''existingBucket''"
       "schedulesOf [c] = []"
    by (auto elim: bucket_step)
  from assms(4,5) same obtain k where
    k: "k \<le> j" "distinct (map (idPrefix e) (take k ?ss))"
       "idPrefix e (?ss ! k) \<in> set (map (idPrefix e) (take k ?ss))"
    by (rule first_repeat)
  from k(3) have pos: "0 < k"
    by (cases k) simp_all
  from k(1) assms(5) have kl: "k < length ?ss"
    by simp
  note run = constructor_clash [OF v c(1,2) kl k(2,3)]
  have thrown: "fst (DailyCloudWatchLogArchiver e props)
      = Some (NameClash (''Schedule'' @ idPrefix e (?ss ! k)))"
    by (simp add: run)
  have fixed: "schedulesOf [c, lambdaExecutionRole e bucket, lambdaFunction e bucket,
          schedulerExecutionRole e, scheduleGroup e] = []"
    using c(3)
    by (cases c) (simp_all add: lambdaExecutionRole_def lambdaFunction_def
        schedulerExecutionRole_def scheduleGroup_def)
  have created: "schedulesOf (snd (DailyCloudWatchLogArchiver e props))
      = map (\<lambda>(n, s). (''Schedule'' @ idPrefix e s, cfnScheduleProps e n s))
          (List.enumerate 0 (take k ?ss))"
    unfolding run snd_conv schedulesOf_append schedulesOf_cfnSchedule fixed by simp
  have "\<exists>k. 0 < k \<and> k \<le> j
          \<and> distinct (map (idPrefix e) (take k ?ss))
          \<and> idPrefix e (?ss ! k) \<in> set (map (idPrefix e) (take k ?ss))
          \<and> fst (DailyCloudWatchLogArchiver e props)
              = Some (NameClash (''Schedule'' @ idPrefix e (?ss ! k)))
          \<and> schedulesOf (snd (DailyCloudWatchLogArchiver e props))
              = map (\<lambda>(n, s). (''Schedule'' @ idPrefix e s, cfnScheduleProps e n s))
                  (List.enumerate 0 (take k ?ss))"
    by (intro exI [of _ k] conjI pos k thrown created)
  then show ?thesis
    by (intro conjI v same len hex ids)
qed

theorem same_name_stops_the_run_witness:
  "1 \<le> length (schedules sameNameTwice) \<and> length (schedules sameNameTwice) \<le> 60
   \<and> bucketResolves sampleCdk sameNameTwice
   \<and> (0::nat) < 1 \<and> 1 < length (schedules sameNameTwice)
   \<and> name (schedules sameNameTwice ! 0) = name (schedules sameNameTwice ! 1)
   \<and> propsValidation sameNameTwice = None
   \<and> idPrefix sampleCdk (schedules sameNameTwice ! 0) = idPrefix sampleCdk (schedules sameNameTwice ! 1)
   \<and> fst (DailyCloudWatchLogArchiver sampleCdk sameNameTwice) \<noteq> None
   \<and> length (schedulesOf (snd (DailyCloudWatchLogArchiver sampleCdk sameNameTwice))) \<le> 1"
proof -
  have h: "1 \<le> length (schedules sameNameTwice)" "length (schedules sameNameTwice) \<le> 60"
    "bucketResolves sampleCdk sameNameTwice"
    "(0::nat) < 1" "1 < length (schedules sameNameTwice)"
    "name (schedules sameNameTwice ! 0) = name (schedules sameNameTwice ! 1)"
    by (simp_all add: bucketResolves_def sameNameTwice_def dailyAppLogs_def dailyAppLogsAgain_def)
  note r = same_name_stops_the_run [OF h]
  from r obtain k where
    k: "k \<le> 1"
       "fst (DailyCloudWatchLogArchiver sampleCdk sameNameTwice)
          = Some (NameClash (''Schedule'' @ idPrefix sampleCdk (schedules sameNameTwice ! k)))"
       "schedulesOf (snd (DailyCloudWatchLogArchiver sampleCdk sameNameTwice))
          = map (\<lambda>(n, s). (''Schedule'' @ idPrefix sampleCdk s, cfnScheduleProps sampleCdk n s))
              (List.enumerate 0 (take k (schedules sameNameTwice)))"
    by (elim conjE exE)
  have t: "fst (DailyCloudWatchLogArchiver sampleCdk sameNameTwice) \<noteq> None"
    unfolding k(2) by simp
  have n: "length (schedulesOf (snd (DailyCloudWatchLogArchiver sampleCdk sameNameTwice))) \<le> 1"
    unfolding k(3) using k(1) by simp
  show ?thesis
    by (intro conjI h conjunct1 [OF r] conjunct1 [OF conjunct2 [OF r]] t n)
qed

end
